theory Spec2Isabelle
  imports Complex_Main "HOL-Library.Sublist" "HOL-Library.Multiset"
begin

section \<open>Python strings\<close>

text \<open>
  A Python \<open>str\<close> is a sequence of code points. It is modelled as \<open>string\<close>, a list of
  8-bit \<open>char\<close>s, each read as the code point of the same number: the model covers text
  of the Latin-1 range (code points 0 to 255), and \<open>length\<close> counts code points as
  \<open>len\<close> does. The three tables below are Python's on that range.
\<close>

definition isspace :: "char \<Rightarrow> bool" where
  \<comment> \<open>\<open>str.isspace\<close> on one code point: what \<open>strip()\<close> and \<open>split()\<close> remove\<close>
  "isspace c = (let n = (of_char c :: nat) in
     (9 \<le> n \<and> n \<le> 13) \<or> (28 \<le> n \<and> n \<le> 32) \<or> n = 133 \<or> n = 160)"

definition word_char :: "char \<Rightarrow> bool" where
  \<comment> \<open>the class \<open>\w\<close> of \<open>re\<close> on a \<open>str\<close> pattern: alphanumeric or underscore\<close>
  "word_char c = (let n = (of_char c :: nat) in
     (48 \<le> n \<and> n \<le> 57) \<or> (65 \<le> n \<and> n \<le> 90) \<or> n = 95 \<or> (97 \<le> n \<and> n \<le> 122) \<or>
     n = 170 \<or> n = 178 \<or> n = 179 \<or> n = 181 \<or> n = 185 \<or> n = 186 \<or>
     (188 \<le> n \<and> n \<le> 190) \<or> (192 \<le> n \<and> n \<le> 214) \<or> (216 \<le> n \<and> n \<le> 246) \<or> 248 \<le> n)"

definition lower_char :: "char \<Rightarrow> char" where
  "lower_char c = (let n = (of_char c :: nat) in
     if (65 \<le> n \<and> n \<le> 90) \<or> (192 \<le> n \<and> n \<le> 214) \<or> (216 \<le> n \<and> n \<le> 222)
     then char_of (n + 32) else c)"

definition lower :: "string \<Rightarrow> string" where
  \<comment> \<open>\<open>str.lower()\<close>\<close>
  "lower s = map lower_char s"

definition strip :: "string \<Rightarrow> string" where
  \<comment> \<open>\<open>str.strip()\<close>: leading and trailing whitespace removed\<close>
  "strip s = rev (dropWhile isspace (rev (dropWhile isspace s)))"

fun runs :: "(char \<Rightarrow> bool) \<Rightarrow> string \<Rightarrow> string \<Rightarrow> string list" where
  \<comment> \<open>the maximal runs of characters satisfying \<open>p\<close>, left to right; \<open>cur\<close> is the run being read\<close>
  "runs p cur [] = (if cur = [] then [] else [cur])"
| "runs p cur (c # cs) =
     (if p c then runs p (cur @ [c]) cs
      else if cur = [] then runs p [] cs else cur # runs p [] cs)"

definition str_split :: "string \<Rightarrow> string list" where
  \<comment> \<open>\<open>str.split()\<close> with no argument: the maximal runs of non-whitespace\<close>
  "str_split s = runs (\<lambda>c. \<not> isspace c) [] s"

definition findall_words :: "nat \<Rightarrow> string \<Rightarrow> string list" where
  \<comment> \<open>\<open>re.findall(r'\b\w{n,}\b', s)\<close>: a match starts at a word boundary, takes a whole run
      of word characters (the closing \<open>\b\<close> refuses less), and needs \<open>n\<close> of them;
      \<open>r'\b\w+\b'\<close> is the case \<open>n = 1\<close>\<close>
  "findall_words n s = filter (\<lambda>w. n \<le> length w) (runs word_char [] s)"

fun str_contains :: "string \<Rightarrow> string \<Rightarrow> bool" where
  \<comment> \<open>\<open>needle in hay\<close> on strings: \<open>needle\<close> occurs as a contiguous substring\<close>
  "str_contains needle [] = (needle = [])"
| "str_contains needle (c # cs) = (prefix needle (c # cs) \<or> str_contains needle cs)"

fun join :: "string \<Rightarrow> string list \<Rightarrow> string" where
  \<comment> \<open>\<open>sep.join(xs)\<close>\<close>
  "join sep [] = []"
| "join sep [x] = x"
| "join sep (x # y # ys) = x @ sep @ join sep (y # ys)"

fun str_of_nat :: "nat \<Rightarrow> string" where
  \<comment> \<open>\<open>str(i)\<close> for a non-negative integer: its decimal digits\<close>
  "str_of_nat n =
     (if n < 10 then [char_of (48 + n)]
      else str_of_nat (n div 10) @ [char_of (48 + n mod 10)])"

declare str_of_nat.simps [simp del]

definition get :: "'a option \<Rightarrow> 'a \<Rightarrow> 'a" where
  \<comment> \<open>\<open>d.get(key, default)\<close>, the entry \<open>d[key]\<close> given as an option (\<open>None\<close>: no such key)\<close>
  "get v dflt = (case v of None \<Rightarrow> dflt | Some x \<Rightarrow> x)"

definition slice_to :: "'a list \<Rightarrow> int \<Rightarrow> 'a list" where
  \<comment> \<open>\<open>xs[:n]\<close>: a negative \<open>n\<close> counts from the end\<close>
  "slice_to xs n = (if 0 \<le> n then take (nat n) xs else take (nat (int (length xs) + n)) xs)"

definition sort_reverse :: "('a \<Rightarrow> real) \<Rightarrow> 'a list \<Rightarrow> 'a list" where
  \<comment> \<open>\<open>xs.sort(key=k, reverse=True)\<close>: the list is reversed, sorted by the stable ascending
      sort, and reversed again\<close>
  "sort_reverse k xs = rev (sort_key k (rev xs))"

section \<open>Records of the store\<close>

text \<open>
  A stored document or meeting is a Python dict. Each key the code reads is a field of
  option type: \<open>None\<close> when the dict has no such key, so that \<open>d.get(key, default)\<close> is
  \<open>get (field d) default\<close>. Values have the types the models declare (strings, lists
  of strings); a date and an \<open>_id\<close> are kept as the text \<open>str()\<close> gives them. Relevance
  scores are Python floats, modelled as exact reals.
\<close>

record document =
  d_doc_id :: "string option"
  d_id :: "string option"
  d_title :: "string option"
  d_content :: "string option"
  d_category :: "string option"
  d_tags :: "string list option"
  d_relevance_score :: "real option"

record action_item =
  task :: "string option"
  assignee :: "string option"
  due_date :: "string option"

record meeting =
  m_meeting_id :: "string option"
  m_title :: "string option"
  m_date :: "string option"
  m_participants :: "string list option"
  m_summary :: "string option"
  m_key_points :: "string list option"
  m_action_items :: "action_item list option"
  m_decisions :: "string list option"
  m_tags :: "string list option"
  m_relevance_score :: "real option"

record ChatQuery =
  question :: string
  meeting_id :: "string option"
  doc_id :: "string option"
  ai_provider :: string
  context_days :: "int option"

text \<open>
  The store \<open>db\<close> is outside the program: its four calls are parameters. Each of them
  catches its own exceptions (returning \<open>None\<close> or the empty list), so none raises.
\<close>

record database =
  get_document_by_id :: "string \<Rightarrow> document option"
  get_meeting_by_id :: "string \<Rightarrow> meeting option"
  search_documents_text :: "string \<Rightarrow> nat \<Rightarrow> document list"
  get_recent_meetings :: "int \<Rightarrow> nat \<Rightarrow> meeting list"

record Settings =
  MAX_CONTEXT_DOCUMENTS :: int

definition settings_default :: Settings where
  \<comment> \<open>\<open>int(os.getenv("MAX_CONTEXT_DOCUMENTS", 10))\<close> with the variable unset\<close>
  "settings_default = \<lparr>MAX_CONTEXT_DOCUMENTS = 10\<rparr>"

section \<open>Relevance search\<close>

definition count_matches :: "string list \<Rightarrow> string \<Rightarrow> nat" where
  \<comment> \<open>\<open>sum(1 for keyword in keywords if keyword in content_lower)\<close>\<close>
  "count_matches keywords content_lower =
     length (filter (\<lambda>keyword. str_contains keyword content_lower) keywords)"

definition score :: "string list \<Rightarrow> string \<Rightarrow> real" where
  \<comment> \<open>\<open>matches / len(keywords) if keywords else 0\<close>\<close>
  "score keywords content_lower =
     (if keywords \<noteq> [] then real (count_matches keywords content_lower) / real (length keywords)
      else 0)"

definition document_content_lower :: "document \<Rightarrow> string" where
  "document_content_lower doc =
     lower (get (d_title doc) [] @ '' '' @ get (d_content doc) [] @ '' '' @
            join '' '' (get (d_tags doc) []))"

definition meeting_content_lower :: "meeting \<Rightarrow> string" where
  "meeting_content_lower m =
     lower (get (m_title m) [] @ '' '' @ get (m_summary m) [] @ '' '' @
            join '' '' (get (m_tags m) []))"

definition document_key :: "document \<Rightarrow> string" where
  \<comment> \<open>\<open>doc.get('doc_id') or str(doc.get('_id', ''))\<close>\<close>
  "document_key doc =
     (case d_doc_id doc of
        Some i \<Rightarrow> if i \<noteq> [] then i else get (d_id doc) []
      | None \<Rightarrow> get (d_id doc) [])"

fun unique_docs :: "string set \<Rightarrow> document list \<Rightarrow> document list" where
  \<comment> \<open>the loop that removes duplicates, \<open>seen\<close> being the keys met so far\<close>
  "unique_docs seen [] = []"
| "unique_docs seen (doc # docs) =
     (if document_key doc \<notin> seen
      then doc # unique_docs (insert (document_key doc) seen) docs
      else unique_docs seen docs)"

definition score_document :: "string list \<Rightarrow> document \<Rightarrow> document" where
  "score_document keywords doc =
     doc\<lparr>d_relevance_score := Some (score keywords (document_content_lower doc))\<rparr>"

definition sort_documents :: "document list \<Rightarrow> document list" where
  \<comment> \<open>\<open>unique_docs.sort(key=lambda x: x.get('relevance_score', 0), reverse=True)\<close>\<close>
  "sort_documents docs = sort_reverse (\<lambda>x. get (d_relevance_score x) 0) docs"

definition document_candidates :: "database \<Rightarrow> ChatQuery \<Rightarrow> document list" where
  \<comment> \<open>the scored candidates of the document search, before they are sorted\<close>
  "document_candidates db query =
     (let keywords = findall_words 3 (lower (question query));
          all_docs = concat (map (\<lambda>keyword. search_documents_text db keyword 10) (take 5 keywords))
      in map (score_document keywords) (unique_docs {} all_docs))"

definition find_relevant_documents :: "Settings \<Rightarrow> database \<Rightarrow> ChatQuery \<Rightarrow> document list" where
  "find_relevant_documents settings db query =
     slice_to (sort_documents (document_candidates db query)) (MAX_CONTEXT_DOCUMENTS settings)"

fun relevant_meetings :: "string list \<Rightarrow> meeting list \<Rightarrow> meeting list" where
  \<comment> \<open>the loop over the recent meetings: one with a matching keyword is scored and kept\<close>
  "relevant_meetings keywords [] = []"
| "relevant_meetings keywords (m # ms) =
     (if count_matches keywords (meeting_content_lower m) > 0
      then m\<lparr>m_relevance_score := Some (score keywords (meeting_content_lower m))\<rparr>
             # relevant_meetings keywords ms
      else relevant_meetings keywords ms)"

definition sort_meetings :: "meeting list \<Rightarrow> meeting list" where
  "sort_meetings ms = sort_reverse (\<lambda>x. get (m_relevance_score x) 0) ms"

definition lookback_days :: "ChatQuery \<Rightarrow> int" where
  \<comment> \<open>\<open>query.context_days or 30\<close>\<close>
  "lookback_days query =
     (case context_days query of Some n \<Rightarrow> if n \<noteq> 0 then n else 30 | None \<Rightarrow> 30)"

definition meeting_candidates :: "database \<Rightarrow> ChatQuery \<Rightarrow> meeting list" where
  "meeting_candidates db query =
     (let keywords = findall_words 1 (lower (question query));
          recent_meetings = get_recent_meetings db (lookback_days query) 50
      in relevant_meetings keywords recent_meetings)"

definition find_relevant_meetings :: "database \<Rightarrow> ChatQuery \<Rightarrow> meeting list" where
  "find_relevant_meetings db query = slice_to (sort_meetings (meeting_candidates db query)) 10"

section \<open>Context assembly\<close>

definition newline :: string where
  "newline = [CHR 0x0A]"

definition separator :: string where
  \<comment> \<open>\<open>"\n\n---\n\n"\<close>\<close>
  "separator = newline @ newline @ ''---'' @ newline @ newline"

definition indent :: string where
  \<comment> \<open>the twelve spaces that start each line of the meeting template\<close>
  "indent = ''            ''"

definition document_entry :: "nat \<Rightarrow> document \<Rightarrow> string" where
  \<comment> \<open>the template of \<open>_format_document_context\<close>, filled in and stripped\<close>
  "document_entry i doc = strip (
     newline @ ''Document '' @ str_of_nat i @ '': '' @ get (d_title doc) ''Untitled Document'' @
     newline @ ''Category: '' @ get (d_category doc) ''General'' @
     newline @ ''Tags: '' @ join '', '' (get (d_tags doc) []) @
     newline @ ''Content: '' @ get (d_content doc) ''No content available'' @
     newline)"

definition format_document_context :: "document list \<Rightarrow> string" where
  "format_document_context documents =
     (if documents = [] then []
      else join separator (map (\<lambda>(i, doc). document_entry i doc) (List.enumerate 1 documents)))"

definition format_action_item :: "action_item \<Rightarrow> string" where
  "format_action_item item =
     get (task item) ''Unknown task'' @ '' (Assigned to: '' @ get (assignee item) ''Unassigned'' @
     '', Due: '' @ get (due_date item) ''No due date'' @ '')''"

definition format_action_items :: "action_item list \<Rightarrow> string" where
  "format_action_items items =
     (if items = [] then ''No action items''
      else join ''; '' (map format_action_item items))"

definition meeting_entry :: "nat \<Rightarrow> meeting \<Rightarrow> string" where
  \<comment> \<open>the template of \<open>_format_meeting_context\<close>, filled in and stripped\<close>
  "meeting_entry i m = strip (
     newline @ indent @ ''Meeting '' @ str_of_nat i @ '': '' @ get (m_title m) ''Untitled'' @
     newline @ indent @ ''Date: '' @ get (m_date m) ''Unknown'' @
     newline @ indent @ ''Participants: '' @ join '', '' (get (m_participants m) []) @
     newline @ indent @ ''Summary: '' @ get (m_summary m) ''No summary available'' @
     newline @ indent @ ''Key Points: '' @ join '', '' (get (m_key_points m) []) @
     newline @ indent @ ''Action Items: '' @ format_action_items (get (m_action_items m) []) @
     newline @ indent @ ''Decisions: '' @ join '', '' (get (m_decisions m) []) @
     newline @ indent)"

definition format_meeting_context :: "meeting list \<Rightarrow> string" where
  "format_meeting_context meetings =
     (if meetings = [] then ''No meeting data available.''
      else join separator (map (\<lambda>(i, m). meeting_entry i m) (List.enumerate 1 meetings)))"

definition build_context :: "Settings \<Rightarrow> database \<Rightarrow> ChatQuery \<Rightarrow> string" where
  \<comment> \<open>\<open>context_parts\<close> grows in three steps; nothing in the body raises, so the handler
      of the source is never entered\<close>
  "build_context settings db query =
     (let by_doc_id =
            (case doc_id query of
               Some i \<Rightarrow>
                 if i \<noteq> [] then
                   (case get_document_by_id db i of
                      Some document \<Rightarrow> [format_document_context [document]]
                    | None \<Rightarrow> [])
                 else []
             | None \<Rightarrow> []);
          by_meeting_id =
            (case meeting_id query of
               Some i \<Rightarrow>
                 if i \<noteq> [] then
                   (case get_meeting_by_id db i of
                      Some m \<Rightarrow> [format_meeting_context [m]]
                    | None \<Rightarrow> [])
                 else []
             | None \<Rightarrow> []);
          by_search =
            (if get (doc_id query) [] = [] \<and> get (meeting_id query) [] = [] then
               (let relevant_docs = find_relevant_documents settings db query;
                    relevant_mtgs = find_relevant_meetings db query
                in (if relevant_docs \<noteq> [] then [format_document_context relevant_docs] else []) @
                   (if relevant_mtgs \<noteq> [] then [format_meeting_context relevant_mtgs] else []))
             else []);
          context_parts = by_doc_id @ by_meeting_id @ by_search
      in if context_parts = [] then [] else join separator context_parts)"

section \<open>Sources of an answer\<close>

record source_document =
  s_doc_id :: "string option"
  s_title :: "string option"
  s_category :: "string option"
  content_preview :: string

record source_meeting =
  s_meeting_id :: "string option"
  s_meeting_title :: "string option"
  s_date :: "string option"
  s_summary :: string

datatype source = Source_Document source_document | Source_Meeting source_meeting





section \<open>Confidence\<close>

definition uncertainty_phrases :: "string list" where
  "uncertainty_phrases =
     [''i don't know'', ''i'm not sure'', ''no information'',
      ''not mentioned'', ''not specified'', ''not available'']"

fun uncertainty_loop :: "string list \<Rightarrow> string \<Rightarrow> real option" where
  \<comment> \<open>the loop over the phrases: \<open>Some 0.2\<close> is its \<open>return 0.2\<close>, \<open>None\<close> its falling through\<close>
  "uncertainty_loop [] answer_lower = None"
| "uncertainty_loop (phrase # phrases) answer_lower =
     (if str_contains phrase answer_lower then Some 0.2
      else uncertainty_loop phrases answer_lower)"

definition round_half_even :: "real \<Rightarrow> int" where
  "round_half_even y =
     (let f = \<lfloor>y\<rfloor>; r = y - of_int f
      in if r < 1 / 2 then f else if 1 / 2 < r then f + 1 else if even f then f else f + 1)"

definition py_round :: "real \<Rightarrow> nat \<Rightarrow> real" where
  \<comment> \<open>\<open>round(x, ndigits)\<close> on the exact value: to the nearest multiple of \<open>10 ^ -ndigits\<close>,
      a tie going to the even one\<close>
  "py_round x ndigits = of_int (round_half_even (x * 10 ^ ndigits)) / 10 ^ ndigits"

definition term_similarity :: "string \<Rightarrow> string \<Rightarrow> real" where
  "term_similarity question_lower answer_lower =
     (let question_terms = set (str_split question_lower);
          answer_terms = set (str_split answer_lower);
          overlap = card (question_terms \<inter> answer_terms)
      in if question_terms \<noteq> {} then real overlap / real (card question_terms) else 0)"

definition calculate_confidence :: "string \<Rightarrow> string \<Rightarrow> real" where
  "calculate_confidence answer_text question_text =
     (let answer_lower = lower answer_text;
          question_lower = lower question_text
      in case uncertainty_loop uncertainty_phrases answer_lower of
           Some c \<Rightarrow> c
         | None \<Rightarrow>
             (let base_confidence = 0.7;
                  confidence =
                    min 0.95 (base_confidence + term_similarity question_lower answer_lower * 0.3)
              in py_round confidence 2))"

section \<open>Providers and answering\<close>







record ChatResponse =
  answer :: string
  sources :: "source list"
  provider_used :: string
  confidence :: real





section \<open>Example inputs\<close>

definition mongodb_question :: string where
  "mongodb_question = ''What is MongoDB used for?''"

definition mongodb_keywords :: "string list" where
  "mongodb_keywords = [''what'', ''mongodb'', ''used'', ''for'']"

definition mongodb_doc :: document where
  "mongodb_doc =
     \<lparr>d_doc_id = Some ''DOC-001'', d_id = None, d_title = Some ''Databases'',
      d_content = Some ''MongoDB is a NoSQL database...'', d_category = Some ''documentation'',
      d_tags = Some [], d_relevance_score = None\<rparr>"

definition notes_doc :: document where
  "notes_doc =
     \<lparr>d_doc_id = Some ''DOC-002'', d_id = None, d_title = Some ''Notes'',
      d_content = Some ''Budget review'', d_category = None,
      d_tags = Some [''finance''], d_relevance_score = None\<rparr>"

definition long_text :: string where
  "long_text = replicate 201 CHR ''x''"

definition long_doc :: document where
  "long_doc =
     \<lparr>d_doc_id = Some ''DOC-003'', d_id = None, d_title = Some ''Long'',
      d_content = Some long_text, d_category = None,
      d_tags = Some [], d_relevance_score = None\<rparr>"

definition kickoff_meeting :: meeting where
  "kickoff_meeting =
     \<lparr>m_meeting_id = Some ''MTG-001'', m_title = Some ''Project Kickoff'',
      m_date = Some ''2023-12-01 10:00:00'', m_participants = Some [''john'', ''jane''],
      m_summary = Some ''MongoDB was chosen for storage'', m_key_points = Some [],
      m_action_items = Some [], m_decisions = Some [], m_tags = Some [],
      m_relevance_score = None\<rparr>"


definition mongodb_query :: ChatQuery where
  "mongodb_query =
     \<lparr>question = mongodb_question, meeting_id = None, doc_id = None,
      ai_provider = ''openai'', context_days = Some 30\<rparr>"

definition empty_db :: database where
  \<comment> \<open>a store that holds nothing\<close>
  "empty_db =
     \<lparr>get_document_by_id = (\<lambda>i. None), get_meeting_by_id = (\<lambda>i. None),
      search_documents_text = (\<lambda>keyword limit. []),
      get_recent_meetings = (\<lambda>days limit. [])\<rparr>"

definition example_db :: database where
  \<comment> \<open>a store of three documents and one meeting, whose text search returns the document
      of the notes for every keyword\<close>
  "example_db =
     \<lparr>get_document_by_id =
        (\<lambda>i. if i = ''DOC-001'' then Some mongodb_doc
             else if i = ''DOC-003'' then Some long_doc else None),
      get_meeting_by_id = (\<lambda>i. if i = ''MTG-001'' then Some kickoff_meeting else None),
      search_documents_text = (\<lambda>keyword limit. take limit [notes_doc]),
      get_recent_meetings = (\<lambda>days limit. take limit [kickoff_meeting])\<rparr>"



definition crowded_db :: database where
  \<comment> \<open>a store whose text search finds, for every keyword, one document of its own\<close>
  "crowded_db = empty_db\<lparr>
      search_documents_text :=
        (\<lambda>keyword limit. take limit [notes_doc\<lparr>d_doc_id := Some keyword\<rparr>])\<rparr>"

definition two_documents :: Settings where
  "two_documents = \<lparr>MAX_CONTEXT_DOCUMENTS = 2\<rparr>"

definition unknown_ids_query :: ChatQuery where
  \<comment> \<open>a query that names a document and a meeting the store does not hold\<close>
  "unknown_ids_query = mongodb_query\<lparr>doc_id := Some ''DOC-404'', meeting_id := Some ''MTG-404''\<rparr>"



section \<open>Properties of the strings and of the sort\<close>


lemma count_matches_le: "count_matches K t \<le> length K"
  by (simp add: count_matches_def)

lemma sort_reverse_descending: "sorted_wrt (\<lambda>a b. k b \<le> k a) (sort_reverse k xs)"
proof -
  have "sorted (map k (sort_key k (rev xs)))"
    by (rule sorted_sort_key)
  then have "sorted_wrt (\<lambda>a b. k a \<le> k b) (sort_key k (rev xs))"
    by (simp add: sorted_map)
  then show ?thesis
    unfolding sort_reverse_def by (simp add: sorted_wrt_rev)
qed

lemma sort_reverse_stable:
  "filter (\<lambda>y. k y = s) (sort_reverse k xs) = filter (\<lambda>y. k y = s) xs"
  unfolding sort_reverse_def by (simp add: rev_filter[symmetric] sort_key_stable)

lemma sort_reverse_mset: "mset (sort_reverse k xs) = mset xs"
  unfolding sort_reverse_def by simp

lemma prefix_slice_to: "prefix (slice_to xs n) xs"
  by (simp add: slice_to_def take_is_prefix)

lemma length_slice_to: "0 \<le> n \<Longrightarrow> length (slice_to xs n) \<le> nat n"
  by (simp add: slice_to_def)

section \<open>The relevance score\<close>

text \<open>
  C3: for every keyword list \<open>K\<close> and every candidate text, the score the scorer assigns
  lies in the closed interval from 0 to 1, and it is 0 when \<open>K\<close> is empty. The score a
  document record receives is that score of its lower-cased title, content and tags.
\<close>

theorem score_in_unit_interval:
  "0 \<le> score K content_lower \<and> score K content_lower \<le> 1 \<and> score [] content_lower = 0 \<and>
   d_relevance_score (score_document K doc) = Some (score K (document_content_lower doc))"
  using count_matches_le [of K content_lower]
  by (simp add: score_def score_document_def)

section \<open>The relevance sort\<close>

text \<open>
  C4: the sort by relevance puts the records in descending order of score, and it is
  stable: for every score \<open>s\<close>, the records of score \<open>s\<close> come out in the order in which
  they went in. The output is a rearrangement of the input. This holds for the documents
  and for the meetings.
\<close>

theorem relevance_sort_descending_stable:
  "sorted_wrt (\<lambda>a b. get (d_relevance_score b) 0 \<le> get (d_relevance_score a) 0)
     (sort_documents docs) \<and>
   (\<forall>s. filter (\<lambda>d. get (d_relevance_score d) 0 = s) (sort_documents docs) =
        filter (\<lambda>d. get (d_relevance_score d) 0 = s) docs) \<and>
   mset (sort_documents docs) = mset docs \<and>
   sorted_wrt (\<lambda>a b. get (m_relevance_score b) 0 \<le> get (m_relevance_score a) 0)
     (sort_meetings ms) \<and>
   (\<forall>s. filter (\<lambda>m. get (m_relevance_score m) 0 = s) (sort_meetings ms) =
        filter (\<lambda>m. get (m_relevance_score m) 0 = s) ms) \<and>
   mset (sort_meetings ms) = mset ms"
  unfolding sort_documents_def sort_meetings_def
  by (simp add: sort_reverse_descending sort_reverse_stable sort_reverse_mset)

section \<open>The size of the result\<close>

text \<open>
  C5: for every question, the document search returns at most the configured maximum
  number of documents, which is 10 by default, and the meeting search returns at most 10
  meetings; each result is a prefix of the sorted candidates. The configured maximum is
  taken to be a count, that is not negative: the slice \<open>[:n]\<close> of a negative \<open>n\<close> drops
  from the end instead.
\<close>

theorem search_results_bounded:
  "0 \<le> MAX_CONTEXT_DOCUMENTS settings \<Longrightarrow>
   length (find_relevant_documents settings db query) \<le> nat (MAX_CONTEXT_DOCUMENTS settings) \<and>
   prefix (find_relevant_documents settings db query)
          (sort_documents (document_candidates db query)) \<and>
   length (find_relevant_meetings db query) \<le> 10 \<and>
   prefix (find_relevant_meetings db query) (sort_meetings (meeting_candidates db query)) \<and>
   MAX_CONTEXT_DOCUMENTS settings_default = 10"
  unfolding find_relevant_documents_def find_relevant_meetings_def
  using length_slice_to [of "MAX_CONTEXT_DOCUMENTS settings" "sort_documents (document_candidates db query)"]
        length_slice_to [of 10 "sort_meetings (meeting_candidates db query)"]
  by (simp add: prefix_slice_to settings_default_def)

theorem search_results_bounded_witness:
  "0 \<le> MAX_CONTEXT_DOCUMENTS two_documents \<and>
   map d_doc_id (document_candidates crowded_db mongodb_query) =
     [Some ''what'', Some ''mongodb'', Some ''used'', Some ''for''] \<and>
   map d_doc_id (find_relevant_documents two_documents crowded_db mongodb_query) =
     [Some ''what'', Some ''mongodb''] \<and>
   prefix (find_relevant_documents two_documents crowded_db mongodb_query)
          (sort_documents (document_candidates crowded_db mongodb_query)) \<and>
   length (find_relevant_meetings crowded_db mongodb_query) \<le> 10"
proof -
  have nonneg: "0 \<le> MAX_CONTEXT_DOCUMENTS two_documents"
    by (simp add: two_documents_def)
  have "map d_doc_id (document_candidates crowded_db mongodb_query) =
     [Some ''what'', Some ''mongodb'', Some ''used'', Some ''for'']"
    by code_simp
  moreover have "map d_doc_id (find_relevant_documents two_documents crowded_db mongodb_query) =
     [Some ''what'', Some ''mongodb'']"
    by code_simp
  ultimately show ?thesis
    using nonneg search_results_bounded [OF nonneg, of crowded_db mongodb_query] by simp
qed

section \<open>Which records the searches keep\<close>







section \<open>The worked example of the document search\<close>

lemma count_matches_all:
  "count_matches K t = length K \<longleftrightarrow> (\<forall>k \<in> set K. str_contains k t)"
proof (induction K)
  case Nil
  show ?case by (simp add: count_matches_def)
next
  case (Cons a K)
  have step: "count_matches (a # K) t =
      (if str_contains a t then Suc (count_matches K t) else count_matches K t)"
    by (simp add: count_matches_def)
  show ?case
    using Cons.IH count_matches_le [of K t] by (auto simp: step)
qed

lemma score_one_iff: "K \<noteq> [] \<Longrightarrow> score K t = 1 \<longleftrightarrow> (\<forall>k \<in> set K. str_contains k t)"
  by (auto simp: score_def count_matches_all[symmetric])

lemma mongodb_keywords_found: "findall_words 3 (lower mongodb_question) = mongodb_keywords"
  by code_simp
lemma mongodb_doc_matches: "count_matches mongodb_keywords (document_content_lower mongodb_doc) = 1"
  by code_simp
lemma notes_doc_matches: "count_matches mongodb_keywords (document_content_lower notes_doc) = 0"
  by code_simp
lemma mongodb_doc_content: "document_content_lower mongodb_doc = ''databases mongodb is a nosql database... ''"
  by code_simp
lemma mongodb_doc_score: "score mongodb_keywords (document_content_lower mongodb_doc) = 1 / 4"
  by (simp add: score_def mongodb_doc_matches) (simp add: mongodb_keywords_def)
lemma notes_doc_score: "score mongodb_keywords (document_content_lower notes_doc) = 0"
  by (simp add: score_def notes_doc_matches)


lemma mongodb_score_one: "score mongodb_keywords content_lower = 1 \<longleftrightarrow>
      str_contains ''what'' content_lower \<and> str_contains ''mongodb'' content_lower \<and>
      str_contains ''used'' content_lower \<and> str_contains ''for'' content_lower"
proof -
  have "mongodb_keywords \<noteq> []"
    by (simp add: mongodb_keywords_def)
  from score_one_iff [OF this, of content_lower] show ?thesis
    by (simp add: mongodb_keywords_def)
qed

lemma mongodb_doc_sorted_first: "sort_documents (map (score_document mongodb_keywords) [notes_doc, mongodb_doc]) =
     [mongodb_doc\<lparr>d_relevance_score := Some (1 / 4)\<rparr>, notes_doc\<lparr>d_relevance_score := Some 0\<rparr>]"
  by (simp add: sort_documents_def sort_reverse_def score_document_def mongodb_doc_score notes_doc_score get_def)


text \<open>
  C2, as the specification states it: for the question \<open>What is MongoDB used for?\<close> the
  keywords would be the set of \<open>mongodb\<close> and \<open>used\<close>, and a document whose text is
  \<open>MongoDB is a NoSQL database...\<close> would score 1. Neither holds: \<open>what\<close> and \<open>for\<close> have
  three characters or more and are keywords too, and of the four keywords the document
  holds one.
\<close>

theorem mongodb_example_counterexample:
  "\<not> set (findall_words 3 (lower mongodb_question)) = {''mongodb'', ''used''} \<and>
   \<not> score (findall_words 3 (lower mongodb_question)) (document_content_lower mongodb_doc) = 1"
proof -
  have "''what'' \<in> set mongodb_keywords"
    by (simp add: mongodb_keywords_def)
  moreover have "''what'' \<notin> {''mongodb'', ''used''}"
    by simp
  ultimately have "set mongodb_keywords \<noteq> {''mongodb'', ''used''}"
    by metis
  then show ?thesis
    by (simp only: mongodb_keywords_found mongodb_doc_score) simp
qed

text \<open>
  C2, amended: the keywords of that question are \<open>what\<close>, \<open>mongodb\<close>, \<open>used\<close> and \<open>for\<close>,
  in this order (the rule of three characters drops \<open>is\<close> alone). The document of the
  example scores one quarter, which still ranks it before a candidate without any
  keyword; a score of 1 takes a text in which all four keywords occur.
\<close>

theorem mongodb_example:
  "findall_words 3 (lower mongodb_question) = [''what'', ''mongodb'', ''used'', ''for''] \<and>
   document_content_lower mongodb_doc = ''databases mongodb is a nosql database... '' \<and>
   score (findall_words 3 (lower mongodb_question)) (document_content_lower mongodb_doc) = 1 / 4 \<and>
   (score (findall_words 3 (lower mongodb_question)) content_lower = 1 \<longleftrightarrow>
      str_contains ''what'' content_lower \<and> str_contains ''mongodb'' content_lower \<and>
      str_contains ''used'' content_lower \<and> str_contains ''for'' content_lower) \<and>
   sort_documents (map (score_document (findall_words 3 (lower mongodb_question)))
       [notes_doc, mongodb_doc]) =
     [mongodb_doc\<lparr>d_relevance_score := Some (1 / 4)\<rparr>, notes_doc\<lparr>d_relevance_score := Some 0\<rparr>]"
  unfolding mongodb_keywords_found
proof (intro conjI)
  show "mongodb_keywords = [''what'', ''mongodb'', ''used'', ''for'']"
    by (simp add: mongodb_keywords_def)
  show "document_content_lower mongodb_doc = ''databases mongodb is a nosql database... ''"
    by (rule mongodb_doc_content)
  show "score mongodb_keywords (document_content_lower mongodb_doc) = 1 / 4"
    by (rule mongodb_doc_score)
  show "score mongodb_keywords content_lower = 1 \<longleftrightarrow>
      str_contains ''what'' content_lower \<and> str_contains ''mongodb'' content_lower \<and>
      str_contains ''used'' content_lower \<and> str_contains ''for'' content_lower"
    by (rule mongodb_score_one)
  show "sort_documents (map (score_document mongodb_keywords) [notes_doc, mongodb_doc]) =
     [mongodb_doc\<lparr>d_relevance_score := Some (1 / 4)\<rparr>, notes_doc\<lparr>d_relevance_score := Some 0\<rparr>]"
    by (rule mongodb_doc_sorted_first)
qed

section \<open>Uncertain answers\<close>

lemma uncertainty_loop_found:
  "phrase \<in> set phrases \<Longrightarrow> str_contains phrase answer_lower \<Longrightarrow>
   uncertainty_loop phrases answer_lower = Some 0.2"
  by (induction phrases) auto

lemma card_inter_set:
  "card (set xs \<inter> set ys) = length (remdups (filter (\<lambda>x. x \<in> set ys) xs))"
  by (metis length_remdups_card_conv inter_set_filter Int_commute)

text \<open>
  C6: when the lower-cased answer contains a phrase of the fixed list, the estimator
  returns exactly 0.2, whatever the question and whatever the overlap of their words; the
  phrase \<open>i don't know\<close> is in the list. The loop returns at the phrase that matches: the
  phrases after it play no part.
\<close>

theorem uncertainty_forces_low_confidence:
  "phrase \<in> set uncertainty_phrases \<Longrightarrow> str_contains phrase (lower answer_text) \<Longrightarrow>
   calculate_confidence answer_text question_text = 0.2 \<and>
   uncertainty_loop (phrase # later) (lower answer_text) = Some 0.2 \<and>
   ''i don't know'' \<in> set uncertainty_phrases"
proof -
  assume mem: "phrase \<in> set uncertainty_phrases"
    and sub: "str_contains phrase (lower answer_text)"
  have "uncertainty_loop uncertainty_phrases (lower answer_text) = Some 0.2"
    using mem sub by (rule uncertainty_loop_found)
  then have "calculate_confidence answer_text question_text = 0.2"
    by (simp add: calculate_confidence_def)
  moreover have "uncertainty_loop (phrase # later) (lower answer_text) = Some 0.2"
    using sub by simp
  moreover have "''i don't know'' \<in> set uncertainty_phrases"
    by (simp add: uncertainty_phrases_def)
  ultimately show ?thesis by blast
qed

theorem uncertainty_forces_low_confidence_witness:
  "''i don't know'' \<in> set uncertainty_phrases \<and>
   str_contains ''i don't know'' (lower ''I Don't Know what MongoDB is used for'') \<and>
   term_similarity (lower mongodb_question) (lower ''I Don't Know what MongoDB is used for'') = 4 / 5 \<and>
   calculate_confidence ''I Don't Know what MongoDB is used for'' mongodb_question = 0.2"
proof -
  have mem: "''i don't know'' \<in> set uncertainty_phrases"
    by (simp add: uncertainty_phrases_def)
  have sub: "str_contains ''i don't know'' (lower ''I Don't Know what MongoDB is used for'')"
    by code_simp
  have sim: "term_similarity (lower mongodb_question)
      (lower ''I Don't Know what MongoDB is used for'') = 4 / 5"
    unfolding term_similarity_def Let_def card_inter_set
    by (simp only: List.card_set) code_simp
  show ?thesis
    using mem sub sim uncertainty_forces_low_confidence [OF mem sub, of mongodb_question]
    by simp
qed

section \<open>Nothing relevant\<close>

lemma slice_to_Nil: "slice_to [] n = []"
  by (simp add: slice_to_def)

lemma sort_reverse_Nil: "sort_reverse k [] = []"
  by (simp add: sort_reverse_def)

lemma concat_map_Nil: "concat (map (\<lambda>x. []) xs) = []"
  by (induction xs) simp_all

lemma find_relevant_documents_empty:
  "(\<forall>keyword. search_documents_text db keyword 10 = []) \<Longrightarrow>
   find_relevant_documents settings db query = []"
  by (simp add: find_relevant_documents_def document_candidates_def sort_documents_def
      sort_reverse_Nil slice_to_Nil concat_map_Nil Let_def)

lemma find_relevant_meetings_empty:
  "get_recent_meetings db (lookback_days query) 50 = [] \<Longrightarrow>
   find_relevant_meetings db query = []"
  by (simp add: find_relevant_meetings_def meeting_candidates_def sort_meetings_def
      sort_reverse_Nil slice_to_Nil Let_def)

text \<open>
  C8: take a query whose identifiers, where it gives any, match nothing in the store.
  If it gives no identifier and the two searches find nothing, or if it gives one, the
  context is the empty string; nothing fails. A search over no candidates (a text search
  that finds no document, no recent meeting) returns the empty list.
\<close>

theorem no_relevant_records_empty_context:
  "(\<forall>i. doc_id query = Some i \<and> i \<noteq> [] \<longrightarrow> get_document_by_id db i = None) \<Longrightarrow>
   (\<forall>i. meeting_id query = Some i \<and> i \<noteq> [] \<longrightarrow> get_meeting_by_id db i = None) \<Longrightarrow>
   ((get (doc_id query) [] = [] \<and> get (meeting_id query) [] = [] \<longrightarrow>
       find_relevant_documents settings db query = [] \<and> find_relevant_meetings db query = []) \<longrightarrow>
     build_context settings db query = []) \<and>
   ((\<forall>keyword. search_documents_text db keyword 10 = []) \<longrightarrow>
     find_relevant_documents settings db query = []) \<and>
   (get_recent_meetings db (lookback_days query) 50 = [] \<longrightarrow>
     find_relevant_meetings db query = [])"
proof (intro conjI impI)
  assume doc: "\<forall>i. doc_id query = Some i \<and> i \<noteq> [] \<longrightarrow> get_document_by_id db i = None"
    and mtg: "\<forall>i. meeting_id query = Some i \<and> i \<noteq> [] \<longrightarrow> get_meeting_by_id db i = None"
    and search: "get (doc_id query) [] = [] \<and> get (meeting_id query) [] = [] \<longrightarrow>
       find_relevant_documents settings db query = [] \<and> find_relevant_meetings db query = []"
  show "build_context settings db query = []"
    using doc mtg search
    by (auto simp: build_context_def Let_def get_def split: option.splits)
next
  assume "\<forall>keyword. search_documents_text db keyword 10 = []"
  then show "find_relevant_documents settings db query = []"
    by (rule find_relevant_documents_empty)
next
  assume "get_recent_meetings db (lookback_days query) 50 = []"
  then show "find_relevant_meetings db query = []"
    by (rule find_relevant_meetings_empty)
qed

theorem no_relevant_records_empty_context_witness:
  "build_context settings_default empty_db mongodb_query = [] \<and>
   find_relevant_documents settings_default empty_db mongodb_query = [] \<and>
   find_relevant_meetings empty_db mongodb_query = [] \<and>
   build_context settings_default example_db unknown_ids_query = []"
proof -
  have d1: "\<forall>i. doc_id mongodb_query = Some i \<and> i \<noteq> [] \<longrightarrow> get_document_by_id empty_db i = None"
    by (simp add: empty_db_def)
  have m1: "\<forall>i. meeting_id mongodb_query = Some i \<and> i \<noteq> [] \<longrightarrow> get_meeting_by_id empty_db i = None"
    by (simp add: empty_db_def)
  have s1: "\<forall>keyword. search_documents_text empty_db keyword 10 = []"
    by (simp add: empty_db_def)
  have r1: "get_recent_meetings empty_db (lookback_days mongodb_query) 50 = []"
    by (simp add: empty_db_def)
  have d2: "\<forall>i. doc_id unknown_ids_query = Some i \<and> i \<noteq> [] \<longrightarrow> get_document_by_id example_db i = None"
    by (simp add: unknown_ids_query_def example_db_def)
  have m2: "\<forall>i. meeting_id unknown_ids_query = Some i \<and> i \<noteq> [] \<longrightarrow> get_meeting_by_id example_db i = None"
    by (simp add: unknown_ids_query_def example_db_def)
  have ids: "get (doc_id unknown_ids_query) [] \<noteq> []"
    by (simp add: unknown_ids_query_def get_def)
  show ?thesis
    using no_relevant_records_empty_context [OF d1 m1, of settings_default]
      no_relevant_records_empty_context [OF d2 m2, of settings_default] s1 r1 ids
    by blast
qed

section \<open>Choosing the provider\<close>








section \<open>The confidence of a response\<close>












section \<open>What the context holds of a long text\<close>

















end
